theory Spec2Isabelle
  imports Main "HOL-Library.Word" "HOL-Library.Sublist"
begin

section \<open>The gifting confirmation page\<close>

text \<open>
  A shallow embedding of \<^verbatim>\<open>src/app/events/[id]/performers/[performerId]/confirm/page.tsx\<close>:
  the component \<^verbatim>\<open>ConfirmPage\<close>, its mount effect and its click handler
  \<^verbatim>\<open>handleConfirm\<close>. The markup is left out; the calls the component makes on its
  collaborators (\<^verbatim>\<open>toast\<close>, \<^verbatim>\<open>router.push\<close>, \<^verbatim>\<open>saveGifting\<close>,
  \<^verbatim>\<open>setTimeout\<close>, \<^verbatim>\<open>console\<close>) are recorded, in order, as a list of effects.
\<close>

subsection \<open>JavaScript strings and numbers\<close>

text \<open>
  A JavaScript string is a sequence of 16-bit code units. ASCII literals of the source are
  written with \<open>str\<close>; the Japanese literals are given by their code units.
\<close>

type_synonym utf16 = "16 word"
type_synonym jsstring = "utf16 list"

definition str :: "string \<Rightarrow> jsstring" where
  "str s = map (\<lambda>c. of_nat (of_char c)) s"

text \<open>
  \<open>Num n\<close> is the number whose value is the integer \<open>n\<close>. The component only produces
  numbers with \<^verbatim>\<open>Number.parseInt\<close>, whose results are integers or \<^verbatim>\<open>NaN\<close>. Numbers are
  doubles in JavaScript: the embedding is exact for magnitudes up to \<open>2^53 - 1\<close>
  (\<^verbatim>\<open>Number.MAX_SAFE_INTEGER\<close>), beyond which JavaScript rounds and this model does not;
  \<open>+0\<close> and \<open>-0\<close> are one value here.
\<close>

datatype number = NaN | Num int

text \<open>
  \<^verbatim>\<open>StrWhiteSpaceChar\<close> of ECMAScript: tab, line feed, vertical tab, form feed, carriage
  return, space, no-break space, the other space separators, the line and paragraph
  separators and the byte order mark.
\<close>

definition StrWhiteSpaceChar :: "utf16 \<Rightarrow> bool" where
  "StrWhiteSpaceChar c = (c \<in> set [0x9, 0xA, 0xB, 0xC, 0xD, 0x20, 0xA0, 0x1680,
     0x2000, 0x2001, 0x2002, 0x2003, 0x2004, 0x2005, 0x2006, 0x2007, 0x2008, 0x2009, 0x200A,
     0x2028, 0x2029, 0x202F, 0x205F, 0x3000, 0xFEFF])"

text \<open>The value of a code unit as a digit: \<open>0-9\<close>, then \<open>a-z\<close> and \<open>A-Z\<close> from ten on.\<close>

definition digit_value :: "utf16 \<Rightarrow> nat option" where
  "digit_value c =
     (let u = unat c in
      if 48 \<le> u \<and> u \<le> 57 then Some (u - 48)
      else if 97 \<le> u \<and> u \<le> 122 then Some (u - 87)
      else if 65 \<le> u \<and> u \<le> 90 then Some (u - 55)
      else None)"

definition radix_digit :: "nat \<Rightarrow> utf16 \<Rightarrow> bool" where
  "radix_digit R c = (case digit_value c of None \<Rightarrow> False | Some v \<Rightarrow> v < R)"

definition digits_value :: "nat \<Rightarrow> jsstring \<Rightarrow> nat" where
  "digits_value R Z = foldl (\<lambda>a c. a * R + the (digit_value c)) 0 Z"

text \<open>
  \<^verbatim>\<open>Number.parseInt(string)\<close> with no radix argument, step by step as ECMAScript
  defines it: leading white space is dropped, one sign is read, a prefix \<^verbatim>\<open>0x\<close> or
  \<^verbatim>\<open>0X\<close> selects radix 16 (radix 10 otherwise), the longest run of digits of that
  radix is the numeral, and no digit at all gives \<^verbatim>\<open>NaN\<close>. What follows the digits is
  ignored.
\<close>

definition parseInt :: "jsstring \<Rightarrow> number" where
  "parseInt inputString =
     (let S = dropWhile StrWhiteSpaceChar inputString;
          neg = (S \<noteq> [] \<and> hd S = 0x2D);
          S = (if S \<noteq> [] \<and> (hd S = 0x2B \<or> hd S = 0x2D) then tl S else S);
          hex = (length S \<ge> 2 \<and> (take 2 S = str ''0x'' \<or> take 2 S = str ''0X''));
          R = (if hex then 16 else 10);
          S = (if hex then drop 2 S else S);
          Z = takeWhile (radix_digit R) S
      in if Z = [] then NaN
         else Num ((if neg then - 1 else 1) * int (digits_value R Z)))"

text \<open>The decimal digits of a natural number, most significant first.\<close>

fun decimal :: "nat \<Rightarrow> jsstring" where
  "decimal n = (if n < 10 then [of_nat (48 + n)]
                else decimal (n div 10) @ [of_nat (48 + n mod 10)])"

declare decimal.simps [simp del]

text \<open>
  The string a number becomes inside a template literal (\<^verbatim>\<open>Number::toString\<close>, which
  is the decimal numeral for the integers below \<open>10^21\<close>).
\<close>

fun number_toString :: "number \<Rightarrow> jsstring" where
  "number_toString NaN = str ''NaN''"
| "number_toString (Num n) =
     (if n < 0 then str ''-'' @ decimal (nat (- n)) else decimal (nat n))"

subsection \<open>The data of the component\<close>

text \<open>
  The route parameters \<^verbatim>\<open>params.id\<close> and \<^verbatim>\<open>params.performerId\<close> are strings; the
  component parses both with \<^verbatim>\<open>Number.parseInt\<close> on every render.
\<close>

record params =
  params_id :: jsstring
  params_performerId :: jsstring

definition eventId :: "params \<Rightarrow> number" where
  "eventId ps = parseInt (params_id ps)"

definition performerId :: "params \<Rightarrow> number" where
  "performerId ps = parseInt (params_performerId ps)"

text \<open>The draft that \<^verbatim>\<open>getPaymentInfo\<close> yields and the state \<^verbatim>\<open>paymentInfo\<close> holds.\<close>

record payment_info =
  performerName :: jsstring
  amount :: jsstring
  comment :: jsstring

text \<open>What \<^verbatim>\<open>getUserSession\<close> yields; only these two fields are read.\<close>

record session =
  email :: jsstring
  name :: jsstring

text \<open>
  The argument of \<^verbatim>\<open>saveGifting\<close>. Its last two fields are \<^verbatim>\<open>amount\<close> and
  \<^verbatim>\<open>comment\<close> in the source; \<open>None\<close> is \<^verbatim>\<open>undefined\<close>.
\<close>

record gifting =
  user_id :: jsstring
  user_name :: jsstring
  artist_id :: jsstring
  artist_name :: jsstring
  event_id :: number
  event_name :: "jsstring option"
  gift_amount :: number
  gift_comment :: "jsstring option"

text \<open>The value \<^verbatim>\<open>saveGifting\<close> resolves to.\<close>

record save_result =
  success :: bool
  error :: "jsstring option"

text \<open>
  A call on a collaborator either returns a value or throws (for \<^verbatim>\<open>saveGifting\<close>:
  the awaited promise is rejected).
\<close>

datatype 'a outcome = Throws | Returns 'a

record toast_props =
  title :: jsstring
  description :: jsstring
  variant :: jsstring

text \<open>
  The calls the component makes, in the order it makes them. \<open>SetTimeout d\<close> is the
  scheduling of the navigation to the completion screen after \<open>d\<close> milliseconds.
\<close>

datatype effect =
    Toast toast_props
  | Push jsstring
  | SaveGifting gifting
  | SetTimeout nat
  | ConsoleLog jsstring
  | ConsoleError

text \<open>How the promise of an \<^verbatim>\<open>async\<close> function stands when control leaves it.\<close>

datatype promise = Pending | Fulfilled | Rejected

text \<open>
  One mounted instance of the component. \<open>isSubmitting\<close> and \<open>paymentInfo\<close> are the two
  \<^verbatim>\<open>useState\<close> cells as the setters last wrote them. \<open>seen_isSubmitting\<close> and
  \<open>seen_paymentInfo\<close> are the constants \<^verbatim>\<open>isSubmitting\<close> and \<^verbatim>\<open>paymentInfo\<close> of the
  latest render (lines 28 to 33): the markup of that render and the closure
  \<^verbatim>\<open>handleConfirm\<close> it created read these, and a setter does not change them; only the
  next render does. \<open>inflight\<close> is the number of \<^verbatim>\<open>saveGifting\<close> calls that have not
  settled yet, \<open>timers\<close> the delays of the timers that have not fired yet.
\<close>

record state =
  isSubmitting :: bool
  paymentInfo :: "payment_info option"
  seen_isSubmitting :: bool
  seen_paymentInfo :: "payment_info option"
  inflight :: nat
  timers :: "nat list"

subsection \<open>The literals\<close>

definition error_title :: jsstring where
  "error_title = [0x30A8, 0x30E9, 0x30FC]"

definition login_required :: jsstring where
  "login_required = [0x30ED, 0x30B0, 0x30A4, 0x30F3, 0x304C, 0x5FC5, 0x8981, 0x3067, 0x3059]"

definition save_failed :: jsstring where
  "save_failed = [0x30AE, 0x30D5, 0x30C6, 0x30A3, 0x30F3, 0x30B0, 0x306E, 0x4FDD, 0x5B58,
     0x306B, 0x5931, 0x6557, 0x3057, 0x307E, 0x3057, 0x305F]"

definition processing_error :: jsstring where
  "processing_error = [0x30AE, 0x30D5, 0x30C6, 0x30A3, 0x30F3, 0x30B0, 0x306E, 0x51E6, 0x7406,
     0x4E2D, 0x306B, 0x30A8, 0x30E9, 0x30FC, 0x304C, 0x767A, 0x751F, 0x3057, 0x307E, 0x3057,
     0x305F]"

definition placeholder_title :: jsstring where
  "placeholder_title = [0x30A4, 0x30D9, 0x30F3, 0x30C8]"

definition title1 :: jsstring where
  "title1 = [0x30B5, 0x30DE, 0x30FC, 0x30D5, 0x30A7, 0x30B9, 0x32, 0x30, 0x32, 0x35]"

definition title2 :: jsstring where
  "title2 = [0x35, 0x5468, 0x5E74, 0x30E9, 0x30A4, 0x30D6, 0x69, 0x6E, 0x6A2A, 0x30A2, 0x30EA]"

definition title3 :: jsstring where
  "title3 = [0x751F, 0x8A95, 0x796D, 0x32, 0x30, 0x32, 0x35]"

definition title4 :: jsstring where
  "title4 = [0x30A6, 0x30A3, 0x30F3, 0x30BF, 0x30FC, 0x30E9, 0x30A4, 0x30D6, 0x32, 0x30, 0x32,
     0x34]"

definition error_toast :: "jsstring \<Rightarrow> toast_props" where
  "error_toast d = \<lparr>title = error_title, description = d, variant = str ''destructive''\<rparr>"

subsection \<open>The event table\<close>

text \<open>
  The object literal \<^verbatim>\<open>events\<close> of \<^verbatim>\<open>handleConfirm\<close>, keyed by strings. Reading a
  property of an object literal also finds what the object inherits from
  \<^verbatim>\<open>Object.prototype\<close>: for those keys the value is a function or an object, which is
  truthy and has no \<^verbatim>\<open>title\<close>.
\<close>

record event =
  ev_id :: number
  ev_title :: jsstring

definition events :: "(jsstring \<times> event) list" where
  "events =
     [(str ''1'', \<lparr>ev_id = Num 1, ev_title = title1\<rparr>),
      (str ''2'', \<lparr>ev_id = Num 2, ev_title = title2\<rparr>),
      (str ''3'', \<lparr>ev_id = Num 3, ev_title = title3\<rparr>),
      (str ''4'', \<lparr>ev_id = Num 4, ev_title = title4\<rparr>)]"

definition Object_prototype_keys :: "jsstring list" where
  "Object_prototype_keys = map str
     [''constructor'', ''hasOwnProperty'', ''isPrototypeOf'', ''propertyIsEnumerable'',
      ''toLocaleString'', ''toString'', ''valueOf'', ''__proto__'', ''__defineGetter__'',
      ''__defineSetter__'', ''__lookupGetter__'', ''__lookupSetter__'']"

datatype property = Own event | Inherited | Undefined

definition events_get :: "jsstring \<Rightarrow> property" where
  "events_get key =
     (case map_of events key of
        Some e \<Rightarrow> Own e
      | None \<Rightarrow> if key \<in> set Object_prototype_keys then Inherited else Undefined)"

text \<open>
  \<^verbatim>\<open>events[params.id] || { id: eventId, title: ... }\<close>: only \<^verbatim>\<open>undefined\<close> is
  falsy among the values the table can give.
\<close>

definition event_of :: "params \<Rightarrow> property" where
  "event_of ps =
     (case events_get (params_id ps) of
        Undefined \<Rightarrow> Own \<lparr>ev_id = eventId ps, ev_title = placeholder_title\<rparr>
      | found \<Rightarrow> found)"

text \<open>\<^verbatim>\<open>event.title\<close>.\<close>

fun title_of :: "property \<Rightarrow> jsstring option" where
  "title_of (Own e) = Some (ev_title e)"
| "title_of Inherited = None"
| "title_of Undefined = None"

subsection \<open>Mounting\<close>

text \<open>
  The first render: the two cells hold their initial values, the render has seen these,
  and nothing is outstanding.
\<close>

definition initial :: state where
  "initial =
     \<lparr>isSubmitting = False, paymentInfo = None,
      seen_isSubmitting = False, seen_paymentInfo = None,
      inflight = 0, timers = []\<rparr>"

text \<open>A render: the component function runs again and reads the two cells.\<close>

definition render :: "state \<Rightarrow> state" where
  "render st = st\<lparr>seen_isSubmitting := isSubmitting st, seen_paymentInfo := paymentInfo st\<rparr>"

text \<open>The two template literals that mention the event and the performer.\<close>

definition performer_path :: "params \<Rightarrow> jsstring" where
  "performer_path ps =
     str ''/events/'' @ number_toString (eventId ps) @
     str ''/performers/'' @ number_toString (performerId ps)"

definition thanksUrl :: "params \<Rightarrow> jsstring" where
  "thanksUrl ps =
     str ''/events/'' @ number_toString (eventId ps) @
     str ''/performers/'' @ number_toString (performerId ps) @ str ''/thanks''"

text \<open>
  The body of \<^verbatim>\<open>useEffect\<close>, run once when the component is mounted, after the first
  render. Its second argument is what \<^verbatim>\<open>getPaymentInfo()\<close> returned (\<open>None\<close> for a
  falsy value). \<^verbatim>\<open>setPaymentInfo\<close> writes the cell; the draft is on the screen after the
  render that follows.
\<close>

definition useEffect :: "params \<Rightarrow> payment_info option \<Rightarrow> state \<Rightarrow> state \<times> effect list" where
  "useEffect ps getPaymentInfo st =
     (case getPaymentInfo of
        Some info \<Rightarrow>
          (st\<lparr>paymentInfo := Some \<lparr>performerName = performerName info,
                                   amount = amount info,
                                   comment = comment info\<rparr>\<rparr>, [])
      | None \<Rightarrow> (st, [Push (performer_path ps)]))"

definition mount :: "params \<Rightarrow> payment_info option \<Rightarrow> state \<times> effect list" where
  "mount ps getPaymentInfo = useEffect ps getPaymentInfo initial"

subsection \<open>The click handler\<close>

text \<open>
  The object literal passed to \<^verbatim>\<open>saveGifting\<close>.
  \<^verbatim>\<open>paymentInfo.comment || undefined\<close> is \<^verbatim>\<open>undefined\<close> exactly for the empty string.
\<close>

definition gifting_data :: "params \<Rightarrow> session \<Rightarrow> payment_info \<Rightarrow> gifting" where
  "gifting_data ps session info =
     \<lparr>user_id = email session,
      user_name = name session,
      artist_id = str ''artist-'' @ number_toString (performerId ps),
      artist_name = performerName info,
      event_id = eventId ps,
      event_name = title_of (event_of ps),
      gift_amount = parseInt (amount info),
      gift_comment = (if comment info \<noteq> [] then Some (comment info) else None)\<rparr>"

text \<open>The \<^verbatim>\<open>catch\<close> block; it ends normally.\<close>

definition catch_block :: "state \<Rightarrow> state \<times> effect list \<times> promise" where
  "catch_block st =
     (st\<lparr>isSubmitting := False\<rparr>,
      [ConsoleError, Toast (error_toast processing_error)],
      Fulfilled)"

text \<open>
  The \<^verbatim>\<open>try\<close> block of \<^verbatim>\<open>handleConfirm\<close> from its first statement to the point where
  it either returns or suspends at \<^verbatim>\<open>await saveGifting(...)\<close>. The second argument is what
  \<^verbatim>\<open>getUserSession()\<close> does when it is called; \<open>Throws\<close> as a result is control leaving
  the block by a throw. \<^verbatim>\<open>paymentInfo\<close> is the constant of the render that created the
  closure.
\<close>

definition try_block ::
  "params \<Rightarrow> session option outcome \<Rightarrow> state \<Rightarrow> (state \<times> effect list \<times> promise) outcome"
  where
  "try_block ps getUserSession st =
     (case getUserSession of
        Throws \<Rightarrow> Throws
      | Returns None \<Rightarrow>
          Returns (st, [Toast (error_toast login_required), Push (str ''/login'')], Fulfilled)
      | Returns (Some session) \<Rightarrow>
          (case seen_paymentInfo st of
             None \<Rightarrow> Returns (st, [], Fulfilled)
           | Some info \<Rightarrow>
               Returns (st\<lparr>inflight := Suc (inflight st)\<rparr>,
                        [SaveGifting (gifting_data ps session info)],
                        Pending)))"

text \<open>
  \<^verbatim>\<open>handleConfirm\<close>, as the closure of the latest render, from its entry to the point
  where it returns or suspends. The guard reads the constant \<^verbatim>\<open>isSubmitting\<close> of that
  render; \<^verbatim>\<open>setIsSubmitting\<close> writes the cell.
\<close>

definition handleConfirm ::
  "params \<Rightarrow> session option outcome \<Rightarrow> state \<Rightarrow> state \<times> effect list \<times> promise" where
  "handleConfirm ps getUserSession st0 =
     (if seen_isSubmitting st0 then (st0, [], Fulfilled)
      else
        let st = st0\<lparr>isSubmitting := True\<rparr> in
        case try_block ps getUserSession st of
          Throws \<Rightarrow> catch_block st
        | Returns finished \<Rightarrow> finished)"

text \<open>
  \<^verbatim>\<open>result.error || ...\<close>: the fallback is taken for a missing and for an empty
  \<^verbatim>\<open>error\<close>.
\<close>

definition failure_description :: "save_result \<Rightarrow> jsstring" where
  "failure_description result =
     (case error result of
        None \<Rightarrow> save_failed
      | Some e \<Rightarrow> if e \<noteq> [] then e else save_failed)"

text \<open>
  The rest of the \<^verbatim>\<open>try\<close> block, run when the awaited \<^verbatim>\<open>saveGifting\<close> call settles:
  with a value, or by throwing.
\<close>

definition try_resumed ::
  "params \<Rightarrow> save_result outcome \<Rightarrow> state \<Rightarrow> (state \<times> effect list \<times> promise) outcome"
  where
  "try_resumed ps settled st =
     (case settled of
        Throws \<Rightarrow> Throws
      | Returns result \<Rightarrow>
          if \<not> success result then
            Returns (st\<lparr>isSubmitting := False\<rparr>,
                     [Toast (error_toast (failure_description result))],
                     Fulfilled)
          else
            Returns (st\<lparr>timers := timers st @ [500]\<rparr>, [SetTimeout 500], Fulfilled))"

text \<open>
  The rest of \<^verbatim>\<open>handleConfirm\<close> after the \<^verbatim>\<open>await\<close>: the call is no longer
  outstanding, and a throw ends in the \<^verbatim>\<open>catch\<close> block.
\<close>

definition handleConfirm_resumed ::
  "params \<Rightarrow> save_result outcome \<Rightarrow> state \<Rightarrow> state \<times> effect list \<times> promise" where
  "handleConfirm_resumed ps settled st0 =
     (let st = st0\<lparr>inflight := inflight st0 - 1\<rparr> in
      case try_resumed ps settled st of
        Throws \<Rightarrow> catch_block st
      | Returns finished \<Rightarrow> finished)"

text \<open>The callback of \<^verbatim>\<open>setTimeout\<close>.\<close>

definition timeout_callback :: "params \<Rightarrow> effect list" where
  "timeout_callback ps = [ConsoleLog (thanksUrl ps), Push (thanksUrl ps)]"

subsection \<open>The life of one mounted instance\<close>

text \<open>
  What can happen to a mounted instance:
  \<^item> \<open>Click\<close>: a click on the confirm button, with what \<^verbatim>\<open>getUserSession\<close> does at that
    moment. The button is part of the markup of line 122 on, which the latest render
    returned only if its \<^verbatim>\<open>paymentInfo\<close> was not null (lines 118 to 120); without the
    button the click reaches nothing. With it, the click runs the \<^verbatim>\<open>handleConfirm\<close>
    of that render. (The button is \<^verbatim>\<open>disabled\<close> when that render saw
    \<^verbatim>\<open>isSubmitting\<close>; the guard of the handler returns at once in the same case, so
    nothing depends on whether a disabled button delivers the click.)
  \<^item> \<open>Render\<close>: React renders the component again.
  \<^item> \<open>Settle\<close>: an outstanding \<^verbatim>\<open>saveGifting\<close> call settles. With no call outstanding
    this cannot happen; \<open>step\<close> leaves the state alone there.
  \<^item> \<open>Fire\<close>: the oldest timer fires; likewise with no timer pending.

  Nothing here makes React render between two clicks: two clicks with no \<open>Render\<close>
  between them run the same closure twice.
\<close>

datatype action =
    Click "session option outcome"
  | Render
  | Settle "save_result outcome"
  | Fire

fun step :: "params \<Rightarrow> action \<Rightarrow> state \<Rightarrow> state \<times> effect list" where
  "step ps (Click getUserSession) st =
     (case seen_paymentInfo st of
        None \<Rightarrow> (st, [])
      | Some _ \<Rightarrow> (case handleConfirm ps getUserSession st of (st', es, _) \<Rightarrow> (st', es)))"
| "step ps Render st = (render st, [])"
| "step ps (Settle settled) st =
     (if inflight st = 0 then (st, [])
      else case handleConfirm_resumed ps settled st of (st', es, _) \<Rightarrow> (st', es))"
| "step ps Fire st =
     (case timers st of
        [] \<Rightarrow> (st, [])
      | d # ds \<Rightarrow> (st\<lparr>timers := ds\<rparr>, timeout_callback ps))"

fun run :: "params \<Rightarrow> action list \<Rightarrow> state \<Rightarrow> state \<times> effect list" where
  "run ps [] st = (st, [])"
| "run ps (a # as) st =
     (case step ps a st of (st1, es1) \<Rightarrow>
        case run ps as st1 of (st2, es2) \<Rightarrow> (st2, es1 @ es2))"


text \<open>Counting the calls of one kind in a list of effects.\<close>

fun is_toast :: "effect \<Rightarrow> bool" where
  "is_toast (Toast _) = True"
| "is_toast _ = False"

fun is_push :: "effect \<Rightarrow> bool" where
  "is_push (Push _) = True"
| "is_push _ = False"

fun is_saveGifting :: "effect \<Rightarrow> bool" where
  "is_saveGifting (SaveGifting _) = True"
| "is_saveGifting _ = False"

definition toasts :: "effect list \<Rightarrow> effect list" where
  "toasts es = filter is_toast es"

definition pushes :: "effect list \<Rightarrow> effect list" where
  "pushes es = filter is_push es"

definition saves :: "effect list \<Rightarrow> effect list" where
  "saves es = filter is_saveGifting es"

text \<open>The descriptions of the toasts in a list of effects, in order.\<close>

fun toast_descriptions :: "effect list \<Rightarrow> jsstring list" where
  "toast_descriptions [] = []"
| "toast_descriptions (Toast t # es) = description t # toast_descriptions es"
| "toast_descriptions (e # es) = toast_descriptions es"

subsection \<open>The spec's catalog and a worked example\<close>

text \<open>
  The spec describes the catalog as a total function \<^verbatim>\<open>lookupEvent\<close> from event ids to
  \<^verbatim>\<open>{id, title}\<close>, with a placeholder for an unknown id. This definition follows those
  words, over the ids of the entries of \<open>events\<close>; the code's lookup is \<open>event_of\<close>.
\<close>

definition catalog_ids :: "number list" where
  "catalog_ids = map (\<lambda>(key, e). ev_id e) events"

definition spec_lookupEvent :: "number \<Rightarrow> event" where
  "spec_lookupEvent n =
     (case find (\<lambda>e. ev_id e = n) (map snd events) of
        Some e \<Rightarrow> e
      | None \<Rightarrow> \<lparr>ev_id = n, ev_title = placeholder_title\<rparr>)"

text \<open>
  The route segment is canonical when it is the very string its number prints as:
  \<^verbatim>\<open>"2"\<close> is, \<^verbatim>\<open>"02"\<close> and \<^verbatim>\<open>"2x"\<close> are not.
\<close>

definition canonical :: "jsstring \<Rightarrow> bool" where
  "canonical seg = (seg = number_toString (parseInt seg))"

text \<open>
  The example of the spec: event 2, performer 7, a draft of 3000 for Aoi with a comment
  of four characters, and the session of Taro.
\<close>

definition example_params :: params where
  "example_params = \<lparr>params_id = str ''2'', params_performerId = str ''7''\<rparr>"

definition example_draft :: payment_info where
  "example_draft =
     \<lparr>performerName = str ''Aoi'', amount = str ''3000'',
      comment = [0x9811, 0x5F35, 0x3063, 0x3066]\<rparr>"

definition example_session :: session where
  "example_session = \<lparr>email = str ''u1'', name = str ''Taro''\<rparr>"



section \<open>Properties\<close>

subsection \<open>Mounting and running\<close>

lemma mount_Some: "mount ps (Some d) = (initial\<lparr>paymentInfo := Some d\<rparr>, [])"
  by (simp add: mount_def useEffect_def)

lemma mount_None: "mount ps None = (initial, [Push (performer_path ps)])"
  by (simp add: mount_def useEffect_def)






subsection \<open>One call at a time, when clicks land on fresh renders\<close>












subsection \<open>Parsing and printing at the literals of the source\<close>

lemmas parse_defs =
  parseInt_def str_def StrWhiteSpaceChar_def radix_digit_def digit_value_def digits_value_def

lemma parseInt_keys:
  "parseInt (str ''1'') = Num 1" "parseInt (str ''2'') = Num 2"
  "parseInt (str ''3'') = Num 3" "parseInt (str ''4'') = Num 4"
  by (simp_all add: parse_defs)

text \<open>A string that starts with neither white space, a sign nor a digit is no numeral.\<close>

lemma parseInt_no_numeral:
  assumes "\<not> StrWhiteSpaceChar c" and "c \<noteq> 0x2B" and "c \<noteq> 0x2D" and "\<not> radix_digit 10 c"
  shows "parseInt (c # cs) = NaN"
proof -
  have "c \<noteq> 0x30"
    using assms(4) by (auto simp: radix_digit_def digit_value_def)
  then have "take 2 (c # cs) \<noteq> str ''0x''" and "take 2 (c # cs) \<noteq> str ''0X''"
    by (auto simp: str_def)
  with assms show ?thesis
    by (simp add: parseInt_def)
qed

lemma letters_no_numeral:
  "c \<in> set (str ''chiptv_'') \<Longrightarrow>
     \<not> StrWhiteSpaceChar c \<and> c \<noteq> 0x2B \<and> c \<noteq> 0x2D \<and> \<not> radix_digit 10 c"
  by (auto simp: str_def StrWhiteSpaceChar_def radix_digit_def digit_value_def)

lemma parseInt_Object_prototype_keys:
  "key \<in> set Object_prototype_keys \<Longrightarrow> parseInt key = NaN"
proof -
  assume "key \<in> set Object_prototype_keys"
  then obtain c cs where "key = c # cs" and "c \<in> set (str ''chiptv_'')"
    by (auto simp: Object_prototype_keys_def str_def)
  with letters_no_numeral[of c] show ?thesis
    by (simp add: parseInt_no_numeral)
qed

lemma number_toString_keys:
  "number_toString (Num 1) = str ''1''" "number_toString (Num 2) = str ''2''"
  "number_toString (Num 3) = str ''3''" "number_toString (Num 4) = str ''4''"
  by (simp_all add: decimal.simps str_def)

lemma NaN_not_inherited: "number_toString NaN \<notin> set Object_prototype_keys"
  by (simp add: Object_prototype_keys_def str_def)

lemma map_of_events:
  "map_of events key = Some e \<Longrightarrow>
     (key = str ''1'' \<and> e = \<lparr>ev_id = Num 1, ev_title = title1\<rparr>) \<or>
     (key = str ''2'' \<and> e = \<lparr>ev_id = Num 2, ev_title = title2\<rparr>) \<or>
     (key = str ''3'' \<and> e = \<lparr>ev_id = Num 3, ev_title = title3\<rparr>) \<or>
     (key = str ''4'' \<and> e = \<lparr>ev_id = Num 4, ev_title = title4\<rparr>)"
  by (auto simp: events_def split: if_splits)

lemma events_get_Own:
  "events_get key = Own e \<Longrightarrow> parseInt key = ev_id e \<and> spec_lookupEvent (ev_id e) = e"
proof -
  assume "events_get key = Own e"
  then have "map_of events key = Some e"
    by (auto simp: events_get_def split: option.splits if_splits)
  from map_of_events[OF this] show ?thesis
    by (auto simp: parseInt_keys spec_lookupEvent_def events_def)
qed

lemma events_get_Inherited: "events_get key = Inherited \<Longrightarrow> parseInt key = NaN"
  by (auto simp: events_get_def parseInt_Object_prototype_keys split: option.splits if_splits)

lemma events_get_key:
  "events_get (str ''1'') = Own \<lparr>ev_id = Num 1, ev_title = title1\<rparr>"
  "events_get (str ''2'') = Own \<lparr>ev_id = Num 2, ev_title = title2\<rparr>"
  "events_get (str ''3'') = Own \<lparr>ev_id = Num 3, ev_title = title3\<rparr>"
  "events_get (str ''4'') = Own \<lparr>ev_id = Num 4, ev_title = title4\<rparr>"
  by (simp_all add: events_get_def events_def str_def)

lemma spec_lookupEvent_unknown:
  "n \<notin> set catalog_ids \<Longrightarrow> spec_lookupEvent n = \<lparr>ev_id = n, ev_title = placeholder_title\<rparr>"
  by (auto simp: catalog_ids_def spec_lookupEvent_def events_def)

text \<open>A number outside the catalog is not found in the table, whatever its spelling.\<close>

lemma events_get_unknown:
  assumes "parseInt key \<noteq> NaN" and "parseInt key \<notin> set catalog_ids"
  shows "events_get key = Undefined"
proof (cases "events_get key")
  case (Own e)
  from events_get_Own[OF Own] have "parseInt key = ev_id e" by simp
  moreover from Own have "map_of events key = Some e"
    by (auto simp: events_get_def split: option.splits if_splits)
  from map_of_events[OF this] have "ev_id e \<in> set catalog_ids"
    by (auto simp: catalog_ids_def events_def)
  ultimately show ?thesis using assms(2) by simp
next
  case Inherited
  from events_get_Inherited[OF this] assms(1) show ?thesis by simp
next
  case Undefined
  then show ?thesis .
qed

text \<open>For a canonical segment the table agrees with the spec's catalog.\<close>

lemma event_of_canonical:
  assumes "canonical (params_id ps)"
  shows "event_of ps = Own (spec_lookupEvent (eventId ps))"
proof (cases "events_get (params_id ps)")
  case (Own e)
  from events_get_Own[OF Own] show ?thesis
    by (simp add: event_of_def Own eventId_def)
next
  case Inherited
  from events_get_Inherited[OF this] assms
  have "params_id ps = number_toString NaN"
    by (simp add: canonical_def)
  moreover from Inherited have "params_id ps \<in> set Object_prototype_keys"
    by (auto simp: events_get_def split: option.splits if_splits)
  ultimately show ?thesis using NaN_not_inherited by simp
next
  case Undefined
  have "eventId ps \<notin> set catalog_ids"
  proof
    assume "eventId ps \<in> set catalog_ids"
    then have "eventId ps = Num 1 \<or> eventId ps = Num 2 \<or> eventId ps = Num 3 \<or> eventId ps = Num 4"
      by (auto simp: catalog_ids_def events_def)
    with assms have "params_id ps \<in> {str ''1'', str ''2'', str ''3'', str ''4''}"
      by (auto simp: canonical_def eventId_def number_toString_keys
               simp del: number_toString.simps)
    then show False using Undefined by (auto simp: events_get_key)
  qed
  from spec_lookupEvent_unknown[OF this] show ?thesis
    by (simp add: event_of_def Undefined)
qed

subsection \<open>The worked example\<close>

lemma example_ids:
  "eventId example_params = Num 2" "performerId example_params = Num 7"
  by (simp_all add: eventId_def performerId_def example_params_def parse_defs)

lemma parseInt_3000: "parseInt (str ''3000'') = Num 3000"
  by (simp add: parse_defs)

lemma example_canonical: "canonical (params_id example_params)"
  by (simp add: canonical_def example_params_def parseInt_keys number_toString_keys
           del: number_toString.simps)

lemma example_strings:
  "number_toString (Num 7) = str ''7''"
  "str ''/events/'' @ str ''2'' @ str ''/performers/'' @ str ''7'' = str ''/events/2/performers/7''"
  "str ''/events/'' @ str ''2'' @ str ''/performers/'' @ str ''7'' @ str ''/thanks'' =
     str ''/events/2/performers/7/thanks''"
  "str ''artist-'' @ str ''7'' = str ''artist-7''"
  by (simp_all add: decimal.simps str_def)

lemmas handler_defs =
  handleConfirm_def handleConfirm_resumed_def try_block_def try_resumed_def catch_block_def
  failure_description_def timeout_callback_def mount_Some mount_None initial_def render_def
  Let_def

lemmas toast_defs =
  error_toast_def error_title_def login_required_def save_failed_def processing_error_def

section \<open>The claims\<close>

text \<open>
  C4. When \<^verbatim>\<open>getPaymentInfo\<close> yields nothing at mount, the component makes exactly one
  call: \<^verbatim>\<open>router.push\<close> to the path of that event and performer. It calls neither
  \<^verbatim>\<open>saveGifting\<close> nor \<^verbatim>\<open>toast\<close>.
\<close>

theorem C4_no_draft_redirects:
  "mount ps None =
     (initial,
      [Push (str ''/events/'' @ number_toString (eventId ps) @
             str ''/performers/'' @ number_toString (performerId ps))])
   \<and> length (pushes (snd (mount ps None))) = 1
   \<and> saves (snd (mount ps None)) = []
   \<and> toasts (snd (mount ps None)) = []"
  by (simp add: mount_None performer_path_def pushes_def saves_def toasts_def)

theorem C4_witness:
  "mount example_params None = (initial, [Push (str ''/events/2/performers/7'')])"
  using C4_no_draft_redirects [of example_params]
  by (simp add: example_ids number_toString_keys example_strings del: number_toString.simps)

text \<open>
  C1, evaluated on the example with \<^verbatim>\<open>getUserSession()\<close> returning \<^verbatim>\<open>null\<close>: the
  handler shows one toast and pushes \<^verbatim>\<open>/login\<close> once, and calls \<^verbatim>\<open>saveGifting\<close>
  not at all; but it has set \<^verbatim>\<open>isSubmitting\<close> before it looked for the session and
  returns without clearing it. After that one click the flag is set, and once React has
  rendered, a second click, now with a session, does nothing. On the instance as it was
  before the first click the same click would have called \<^verbatim>\<open>saveGifting\<close>.
\<close>

theorem C1_no_session_leaves_flag_set:
  "run example_params [Click (Returns None)]
       (render (fst (mount example_params (Some example_draft)))) =
     (initial\<lparr>paymentInfo := Some example_draft, seen_paymentInfo := Some example_draft,
              isSubmitting := True\<rparr>,
      [Toast \<lparr>title = [0x30A8, 0x30E9, 0x30FC],
              description = [0x30ED, 0x30B0, 0x30A4, 0x30F3, 0x304C, 0x5FC5, 0x8981, 0x3067,
                             0x3059],
              variant = str ''destructive''\<rparr>,
       Push (str ''/login'')])
   \<and> run example_params
         [Click (Returns None), Render, Click (Returns (Some example_session))]
         (render (fst (mount example_params (Some example_draft)))) =
       (initial\<lparr>paymentInfo := Some example_draft, seen_paymentInfo := Some example_draft,
                isSubmitting := True, seen_isSubmitting := True\<rparr>,
        [Toast \<lparr>title = [0x30A8, 0x30E9, 0x30FC],
                description = [0x30ED, 0x30B0, 0x30A4, 0x30F3, 0x304C, 0x5FC5, 0x8981, 0x3067,
                               0x3059],
                variant = str ''destructive''\<rparr>,
         Push (str ''/login'')])
   \<and> snd (run example_params [Click (Returns (Some example_session))]
            (render (fst (mount example_params (Some example_draft))))) =
       [SaveGifting (gifting_data example_params example_session example_draft)]"
  by (simp add: handler_defs toast_defs)




text \<open>
  C3. When \<^verbatim>\<open>saveGifting\<close> resolves to a failure that carries the reason \<open>r\<close>, the
  handler shows exactly one toast, of the destructive variant, whose description
  contains \<open>r\<close>: it is \<open>r\<close> itself, or the fixed text of line 92 when \<open>r\<close> is empty. It
  sets no timer and pushes no route, and once React has rendered, the instance is as it
  was before the click, where the next click calls \<^verbatim>\<open>saveGifting\<close> again.
\<close>

theorem C3_failure_is_retryable:
  "run ps [Click (Returns (Some s)), Render,
           Settle (Returns \<lparr>success = False, error = Some r\<rparr>), Render]
       (render (fst (mount ps (Some info)))) =
     (render (fst (mount ps (Some info))),
      [SaveGifting (gifting_data ps s info),
       Toast \<lparr>title = [0x30A8, 0x30E9, 0x30FC],
              description =
                (if r = []
                 then [0x30AE, 0x30D5, 0x30C6, 0x30A3, 0x30F3, 0x30B0, 0x306E, 0x4FDD, 0x5B58,
                       0x306B, 0x5931, 0x6557, 0x3057, 0x307E, 0x3057, 0x305F]
                 else r),
              variant = str ''destructive''\<rparr>])
   \<and> length (toast_descriptions
        (snd (run ps [Click (Returns (Some s)), Render,
                      Settle (Returns \<lparr>success = False, error = Some r\<rparr>), Render]
                (render (fst (mount ps (Some info))))))) = 1
   \<and> list_all (sublist r)
       (toast_descriptions
          (snd (run ps [Click (Returns (Some s)), Render,
                        Settle (Returns \<lparr>success = False, error = Some r\<rparr>), Render]
                  (render (fst (mount ps (Some info)))))))
   \<and> pushes
       (snd (run ps [Click (Returns (Some s)), Render,
                     Settle (Returns \<lparr>success = False, error = Some r\<rparr>), Render]
               (render (fst (mount ps (Some info)))))) = []
   \<and> timers (render (fst (mount ps (Some info)))) = []
   \<and> handleConfirm ps (Returns (Some s')) (render (fst (mount ps (Some info)))) =
       (initial\<lparr>paymentInfo := Some info, seen_paymentInfo := Some info,
                isSubmitting := True, inflight := 1\<rparr>,
        [SaveGifting (gifting_data ps s' info)], Pending)"
  by (simp add: handler_defs toast_defs pushes_def)

theorem C3_witness:
  "run example_params
       [Click (Returns (Some example_session)), Render,
        Settle (Returns \<lparr>success = False, error = Some (str ''quota exceeded'')\<rparr>), Render]
       (render (fst (mount example_params (Some example_draft)))) =
     (render (fst (mount example_params (Some example_draft))),
      [SaveGifting (gifting_data example_params example_session example_draft),
       Toast \<lparr>title = [0x30A8, 0x30E9, 0x30FC],
              description = str ''quota exceeded'',
              variant = str ''destructive''\<rparr>])
   \<and> toast_descriptions
       (snd (run example_params
               [Click (Returns (Some example_session)), Render,
                Settle (Returns \<lparr>success = False, error = Some (str ''quota exceeded'')\<rparr>),
                Render]
               (render (fst (mount example_params (Some example_draft)))))) =
       [str ''quota exceeded'']"
proof -
  have "str ''quota exceeded'' \<noteq> []"
    by (simp add: str_def)
  with C3_failure_is_retryable
         [of example_params example_session "str ''quota exceeded''" example_draft
             example_session]
  show ?thesis
    by (simp del: run.simps)
qed

text \<open>
  C5, refuted as stated: for the route segment \<^verbatim>\<open>"02"\<close> the event id is 2, but the
  table is read at the key \<^verbatim>\<open>"02"\<close>, so the record carries the placeholder title and
  not the catalog title of event 2; and for an empty draft comment the record's comment
  is absent, which is not the draft's comment.
\<close>

theorem C5_counterexample:
  "snd (run \<lparr>params_id = str ''02'', params_performerId = str ''7''\<rparr>
            [Click (Returns (Some example_session))]
            (render (fst (mount \<lparr>params_id = str ''02'', params_performerId = str ''7''\<rparr>
                                (Some (example_draft\<lparr>comment := []\<rparr>)))))) =
     [SaveGifting
        \<lparr>user_id = str ''u1'', user_name = str ''Taro'', artist_id = str ''artist-7'',
         artist_name = str ''Aoi'', event_id = Num 2, event_name = Some placeholder_title,
         gift_amount = Num 3000, gift_comment = None\<rparr>]
   \<and> Some placeholder_title \<noteq> Some (ev_title (spec_lookupEvent (Num 2)))
   \<and> None \<noteq> Some (comment (example_draft\<lparr>comment := []\<rparr>))"
proof -
  have "parseInt (str ''02'') = Num 2" and "parseInt (str ''7'') = Num 7"
    and "parseInt (str ''3000'') = Num 3000"
    by (simp_all add: parse_defs)
  moreover have "events_get (str ''02'') = Undefined"
    by (simp add: events_get_def events_def Object_prototype_keys_def str_def)
  moreover have "ev_title (spec_lookupEvent (Num 2)) = title2"
    by (simp add: spec_lookupEvent_def events_def)
  moreover have "placeholder_title \<noteq> title2"
    by (simp add: placeholder_title_def title2_def)
  ultimately show ?thesis
    by (simp add: handler_defs gifting_data_def event_of_def eventId_def performerId_def
                  example_draft_def example_session_def example_strings
             del: number_toString.simps)
qed

text \<open>
  C5, amended. When the route's id segment is the canonical numeral of the event id, a
  click with a session and a draft calls \<^verbatim>\<open>saveGifting\<close> exactly once, with a record
  whose amount is \<^verbatim>\<open>parseInt\<close> of the draft's amount, whose event name is the catalog
  title for the event id (the placeholder for an id outside the catalog), whose artist id
  is \<^verbatim>\<open>artist-\<close> followed by the performer id, and whose comment is the draft's comment,
  absent when that is empty. When the call succeeds the handler sets one timer of 500 ms,
  and when it fires there is exactly one \<^verbatim>\<open>router.push\<close>, to the thanks path of that
  event and performer. The flag stays set.
\<close>

theorem C5_submission_end_to_end:
  assumes "canonical (params_id ps)"
  shows
    "run ps [Click (Returns (Some s)), Settle (Returns \<lparr>success = True, error = e\<rparr>), Fire]
         (render (fst (mount ps (Some info)))) =
       (initial\<lparr>paymentInfo := Some info, seen_paymentInfo := Some info,
                isSubmitting := True\<rparr>,
        [SaveGifting
           \<lparr>user_id = email s,
            user_name = name s,
            artist_id = str ''artist-'' @ number_toString (performerId ps),
            artist_name = performerName info,
            event_id = eventId ps,
            event_name = Some (ev_title (spec_lookupEvent (eventId ps))),
            gift_amount = parseInt (amount info),
            gift_comment = (if comment info = [] then None else Some (comment info))\<rparr>,
         SetTimeout 500,
         ConsoleLog (str ''/events/'' @ number_toString (eventId ps) @
                     str ''/performers/'' @ number_toString (performerId ps) @ str ''/thanks''),
         Push (str ''/events/'' @ number_toString (eventId ps) @
               str ''/performers/'' @ number_toString (performerId ps) @ str ''/thanks'')])"
proof -
  have "title_of (event_of ps) = Some (ev_title (spec_lookupEvent (eventId ps)))"
    by (simp add: event_of_canonical[OF assms])
  then show ?thesis
    by (simp add: handler_defs gifting_data_def thanksUrl_def)
qed

theorem C5_witness:
  "canonical (params_id example_params)
   \<and> run example_params
        [Click (Returns (Some example_session)),
         Settle (Returns \<lparr>success = True, error = None\<rparr>), Fire]
        (render (fst (mount example_params (Some example_draft)))) =
       (initial\<lparr>paymentInfo := Some example_draft, seen_paymentInfo := Some example_draft,
                isSubmitting := True\<rparr>,
        [SaveGifting
           \<lparr>user_id = str ''u1'', user_name = str ''Taro'', artist_id = str ''artist-7'',
            artist_name = str ''Aoi'', event_id = Num 2, event_name = Some title2,
            gift_amount = Num 3000,
            gift_comment = Some [0x9811, 0x5F35, 0x3063, 0x3066]\<rparr>,
         SetTimeout 500,
         ConsoleLog (str ''/events/2/performers/7/thanks''),
         Push (str ''/events/2/performers/7/thanks'')])"
proof -
  have "ev_title (spec_lookupEvent (Num 2)) = title2"
    by (simp add: spec_lookupEvent_def events_def)
  with C5_submission_end_to_end [OF example_canonical, of example_session None example_draft]
  show ?thesis
    by (simp add: example_canonical example_ids parseInt_3000 number_toString_keys
                  example_strings example_session_def example_draft_def
             del: run.simps number_toString.simps)
qed

text \<open>
  C6. The record passed to \<^verbatim>\<open>saveGifting\<close> has no comment when the draft's comment is
  the empty string (absent, not empty), and has the draft's comment as given otherwise.
\<close>

theorem C6_empty_comment_omitted:
  "snd (handleConfirm ps (Returns (Some s)) (render (fst (mount ps (Some info))))) =
     ([SaveGifting (gifting_data ps s info)], Pending)
   \<and> (comment info = [] \<longrightarrow> gift_comment (gifting_data ps s info) = None)
   \<and> (comment info \<noteq> [] \<longrightarrow> gift_comment (gifting_data ps s info) = Some (comment info))"
  by (simp add: handler_defs gifting_data_def)

theorem C6_witness:
  "comment (example_draft\<lparr>comment := []\<rparr>) = []
   \<and> gift_comment (gifting_data example_params example_session
                      (example_draft\<lparr>comment := []\<rparr>)) = None
   \<and> comment example_draft \<noteq> []
   \<and> gift_comment (gifting_data example_params example_session example_draft) =
       Some [0x9811, 0x5F35, 0x3063, 0x3066]"
  using C6_empty_comment_omitted
          [of example_params example_session "example_draft\<lparr>comment := []\<rparr>"]
        C6_empty_comment_omitted [of example_params example_session example_draft]
  by (simp add: example_draft_def)

text \<open>
  C7. For an event id that is a number outside the catalog, the lookup yields the
  placeholder \<^verbatim>\<open>{id: eventId, title: ...}\<close>, and a click with a session and a draft
  calls \<^verbatim>\<open>saveGifting\<close> with a record that carries the placeholder title and every
  other field as usual.
\<close>

theorem C7_unknown_event_placeholder:
  assumes "eventId ps \<noteq> NaN" and "eventId ps \<notin> set catalog_ids"
  shows
    "event_of ps = Own \<lparr>ev_id = eventId ps, ev_title = placeholder_title\<rparr>
     \<and> handleConfirm ps (Returns (Some s)) (render (fst (mount ps (Some info)))) =
         (initial\<lparr>paymentInfo := Some info, seen_paymentInfo := Some info,
                  isSubmitting := True, inflight := 1\<rparr>,
          [SaveGifting
             \<lparr>user_id = email s,
              user_name = name s,
              artist_id = str ''artist-'' @ number_toString (performerId ps),
              artist_name = performerName info,
              event_id = eventId ps,
              event_name = Some placeholder_title,
              gift_amount = parseInt (amount info),
              gift_comment = (if comment info = [] then None else Some (comment info))\<rparr>],
          Pending)"
proof -
  from assms have "events_get (params_id ps) = Undefined"
    by (simp add: eventId_def events_get_unknown)
  then have "event_of ps = Own \<lparr>ev_id = eventId ps, ev_title = placeholder_title\<rparr>"
    by (simp add: event_of_def)
  then show ?thesis
    by (simp add: handler_defs gifting_data_def)
qed

theorem C7_witness:
  "eventId \<lparr>params_id = str ''9'', params_performerId = str ''7''\<rparr> \<noteq> NaN
   \<and> eventId \<lparr>params_id = str ''9'', params_performerId = str ''7''\<rparr> \<notin> set catalog_ids
   \<and> event_of \<lparr>params_id = str ''9'', params_performerId = str ''7''\<rparr> =
       Own \<lparr>ev_id = Num 9, ev_title = placeholder_title\<rparr>
   \<and> snd (handleConfirm \<lparr>params_id = str ''9'', params_performerId = str ''7''\<rparr>
             (Returns (Some example_session))
             (render (fst (mount \<lparr>params_id = str ''9'', params_performerId = str ''7''\<rparr>
                                 (Some example_draft))))) =
       ([SaveGifting
           \<lparr>user_id = str ''u1'', user_name = str ''Taro'', artist_id = str ''artist-7'',
            artist_name = str ''Aoi'', event_id = Num 9, event_name = Some placeholder_title,
            gift_amount = Num 3000,
            gift_comment = Some [0x9811, 0x5F35, 0x3063, 0x3066]\<rparr>], Pending)"
proof -
  have nine: "eventId \<lparr>params_id = str ''9'', params_performerId = str ''7''\<rparr> = Num 9"
    and seven: "performerId \<lparr>params_id = str ''9'', params_performerId = str ''7''\<rparr> = Num 7"
    by (simp_all add: eventId_def performerId_def parse_defs)
  have a: "eventId \<lparr>params_id = str ''9'', params_performerId = str ''7''\<rparr> \<noteq> NaN"
    by (simp add: nine)
  have b: "eventId \<lparr>params_id = str ''9'', params_performerId = str ''7''\<rparr> \<notin> set catalog_ids"
    by (simp add: nine catalog_ids_def events_def)
  from C7_unknown_event_placeholder [OF a b, of example_session example_draft] a b
  show ?thesis
    by (simp add: nine seven parseInt_3000 example_strings example_session_def
                  example_draft_def
             del: number_toString.simps)
qed

text \<open>
  C8. A throw of \<^verbatim>\<open>getUserSession\<close> or of the awaited \<^verbatim>\<open>saveGifting\<close> call leaves
  the \<^verbatim>\<open>try\<close> block and ends in the \<^verbatim>\<open>catch\<close> block: exactly one toast, of the
  destructive variant, with the fixed text of line 111, which names no cause; and once
  React has rendered, the instance is as it was before the click, where the next click
  calls \<^verbatim>\<open>saveGifting\<close>. On such a throw the handler's promise is fulfilled, and
  whatever its inputs, neither part of the handler leaves its promise rejected.
\<close>

theorem C8_faults_are_caught:
  "try_block ps Throws st = Throws
   \<and> try_resumed ps Throws st = Throws
   \<and> run ps [Click Throws, Render] (render (fst (mount ps (Some info)))) =
       (render (fst (mount ps (Some info))),
        [ConsoleError,
         Toast \<lparr>title = [0x30A8, 0x30E9, 0x30FC],
                description =
                  [0x30AE, 0x30D5, 0x30C6, 0x30A3, 0x30F3, 0x30B0, 0x306E, 0x51E6, 0x7406,
                   0x4E2D, 0x306B, 0x30A8, 0x30E9, 0x30FC, 0x304C, 0x767A, 0x751F, 0x3057,
                   0x307E, 0x3057, 0x305F],
                variant = str ''destructive''\<rparr>])
   \<and> run ps [Click (Returns (Some s)), Render, Settle Throws, Render]
         (render (fst (mount ps (Some info)))) =
       (render (fst (mount ps (Some info))),
        [SaveGifting (gifting_data ps s info),
         ConsoleError,
         Toast \<lparr>title = [0x30A8, 0x30E9, 0x30FC],
                description =
                  [0x30AE, 0x30D5, 0x30C6, 0x30A3, 0x30F3, 0x30B0, 0x306E, 0x51E6, 0x7406,
                   0x4E2D, 0x306B, 0x30A8, 0x30E9, 0x30FC, 0x304C, 0x767A, 0x751F, 0x3057,
                   0x307E, 0x3057, 0x305F],
                variant = str ''destructive''\<rparr>])
   \<and> snd (snd (handleConfirm ps Throws (render (fst (mount ps (Some info)))))) = Fulfilled
   \<and> snd (snd (handleConfirm_resumed ps Throws st)) = Fulfilled
   \<and> snd (snd (handleConfirm ps g st)) \<noteq> Rejected
   \<and> snd (snd (handleConfirm_resumed ps r st)) \<noteq> Rejected
   \<and> handleConfirm ps (Returns (Some s')) (render (fst (mount ps (Some info)))) =
       (initial\<lparr>paymentInfo := Some info, seen_paymentInfo := Some info,
                isSubmitting := True, inflight := 1\<rparr>,
        [SaveGifting (gifting_data ps s' info)], Pending)"
proof -
  have "snd (snd (handleConfirm ps g st)) \<noteq> Rejected"
    by (simp add: handleConfirm_def try_block_def catch_block_def Let_def
             split: outcome.splits option.splits)
  moreover have "snd (snd (handleConfirm_resumed ps r st)) \<noteq> Rejected"
    by (simp add: handleConfirm_resumed_def try_resumed_def catch_block_def Let_def
             split: outcome.splits)
  moreover have "snd (snd (handleConfirm_resumed ps Throws st)) = Fulfilled"
    by (simp add: handleConfirm_resumed_def try_resumed_def catch_block_def Let_def)
  ultimately show ?thesis
    by (simp add: handler_defs toast_defs)
qed

theorem C8_witness:
  "run example_params [Click (Returns (Some example_session)), Render, Settle Throws, Render]
       (render (fst (mount example_params (Some example_draft)))) =
     (render (fst (mount example_params (Some example_draft))),
      [SaveGifting (gifting_data example_params example_session example_draft),
       ConsoleError,
       Toast \<lparr>title = [0x30A8, 0x30E9, 0x30FC],
              description =
                [0x30AE, 0x30D5, 0x30C6, 0x30A3, 0x30F3, 0x30B0, 0x306E, 0x51E6, 0x7406,
                 0x4E2D, 0x306B, 0x30A8, 0x30E9, 0x30FC, 0x304C, 0x767A, 0x751F, 0x3057,
                 0x307E, 0x3057, 0x305F],
              variant = str ''destructive''\<rparr>])"
  using C8_faults_are_caught
          [of example_params initial example_draft example_session Throws Throws
              example_session]
  by (simp del: run.simps)







end
